theory Spec2Isabelle
  imports Main "HOL-Library.Word"
begin

section \<open>JavaScript strings and the host functions the plugin calls\<close>

text \<open>
  A JavaScript string is a sequence of 16-bit code units. \<open>js\<close> writes an ASCII literal
  as such a sequence.
\<close>

type_synonym code_unit = "16 word"
type_synonym jsstring = "code_unit list"

definition js :: "string \<Rightarrow> jsstring" where
  "js s = map (\<lambda>c. of_nat (of_char c)) s"

text \<open>
  What can be thrown: the URIError of \<open>decodeURIComponent\<close>, the TypeError of the
  language (a call of something that is not a function, a method call on \<open>null\<close> or
  \<open>undefined\<close>), and whatever a caller's decode function throws.
\<close>

datatype error = URIError | TypeError | UserError jsstring

subsection \<open>\<open>String.prototype.split\<close>, \<open>Array.prototype.join\<close>, \<open>shift\<close>, \<open>replace\<close>\<close>

text \<open>
  \<open>S.split(R)\<close> for a string separator \<open>R\<close> (ECMA-262, String.prototype.split without a
  limit): the substrings of \<open>S\<close> between the successive, non-overlapping occurrences of
  \<open>R\<close>, scanning from the left. With the empty separator the result is the code units
  of \<open>S\<close> one by one, so the empty string gives the empty array; with any other
  separator the empty string gives the one-element array of the empty string.
\<close>

function split_from :: "'a list \<Rightarrow> 'a list \<Rightarrow> 'a list \<Rightarrow> 'a list list" where
  "split_from R cur [] = [cur]"
| "split_from R cur (c # cs) =
     (if R \<noteq> [] \<and> take (length R) (c # cs) = R
      then cur # split_from R [] (drop (length R) (c # cs))
      else split_from R (cur @ [c]) cs)"
  by pat_completeness auto
termination
  by (relation "measure (\<lambda>(R, cur, S). length S)") auto

definition split_string :: "'a list \<Rightarrow> 'a list \<Rightarrow> 'a list list" where
  "split_string R S = (if R = [] then map (\<lambda>c. [c]) S else split_from R [] S)"

text \<open>\<open>pair.join(sep)\<close> on an array of strings.\<close>

fun join :: "'a list \<Rightarrow> 'a list list \<Rightarrow> 'a list" where
  "join sep [] = []"
| "join sep [x] = x"
| "join sep (x # y # ys) = x @ sep @ join sep (y # ys)"

text \<open>
  \<open>pair.shift()\<close> removes and returns the first element; on an empty array it returns
  \<open>undefined\<close> (here \<open>None\<close>) and leaves the array empty.
\<close>

definition shift :: "'a list \<Rightarrow> 'a option \<times> 'a list" where
  "shift xs = (case xs of [] \<Rightarrow> (None, []) | x # rest \<Rightarrow> (Some x, rest))"

text \<open>
  An array is an object, and every object is truthy in a condition, the empty array
  included.
\<close>

definition array_truthy :: "'a list \<Rightarrow> bool" where
  "array_truthy xs = True"

text \<open>\<open>s.replace(a, b)\<close> with one-character strings: only the first occurrence is replaced.\<close>

fun replace_first :: "'a \<Rightarrow> 'a \<Rightarrow> 'a list \<Rightarrow> 'a list" where
  "replace_first a b [] = []"
| "replace_first a b (c # cs) = (if c = a then b # cs else c # replace_first a b cs)"

text \<open>\<open>s.replace(/^\?/, '')\<close>: one leading question mark is removed.\<close>

definition strip_question :: "jsstring \<Rightarrow> jsstring" where
  "strip_question s = (case s of [] \<Rightarrow> [] | c # cs \<Rightarrow> if c = 0x3F then cs else c # cs)"

subsection \<open>\<open>decodeURIComponent\<close>\<close>

text \<open>
  The host function, after the abstract operation Decode of ECMA-262 with no reserved
  characters: a code unit other than \<open>%\<close> is copied; \<open>%XX\<close> with an octet below 128 gives
  that code unit; an octet with two to four leading one bits starts a UTF-8 sequence of
  that many escaped octets, which must be a well-formed encoding of a code point
  (shortest form, no surrogate, at most U+10FFFF), and the code point is written in
  UTF-16. Everything else throws URIError.
\<close>

definition hex_digit :: "code_unit \<Rightarrow> nat option" where
  "hex_digit c =
     (let n = unat c in
      if 48 \<le> n \<and> n \<le> 57 then Some (n - 48)
      else if 65 \<le> n \<and> n \<le> 70 then Some (n - 55)
      else if 97 \<le> n \<and> n \<le> 102 then Some (n - 87)
      else None)"

definition hex_octet :: "code_unit \<Rightarrow> code_unit \<Rightarrow> nat option" where
  "hex_octet h l =
     (case hex_digit h of None \<Rightarrow> None
      | Some a \<Rightarrow> (case hex_digit l of None \<Rightarrow> None | Some b \<Rightarrow> Some (16 * a + b)))"

definition leading_ones :: "nat \<Rightarrow> nat" where
  "leading_ones B =
     (if B < 128 then 0 else if B < 192 then 1 else if B < 224 then 2
      else if B < 240 then 3 else if B < 248 then 4 else 5)"

fun continuation :: "nat \<Rightarrow> jsstring \<Rightarrow> (nat list \<times> jsstring) option" where
  "continuation 0 s = Some ([], s)"
| "continuation (Suc j) (p # h # l # s) =
     (if p \<noteq> 0x25 then None
      else case hex_octet h l of None \<Rightarrow> None
        | Some b \<Rightarrow> (case continuation j s of None \<Rightarrow> None
                     | Some (bs, r) \<Rightarrow> Some (b # bs, r)))"
| "continuation (Suc j) s = None"

definition is_cont :: "nat \<Rightarrow> bool" where
  "is_cont b = (128 \<le> b \<and> b < 192)"

definition utf8_code_point :: "nat list \<Rightarrow> nat option" where
  "utf8_code_point octets =
     (case octets of
        [a, b] \<Rightarrow>
          (let V = (a mod 32) * 64 + b mod 64
           in if is_cont b \<and> 128 \<le> V then Some V else None)
      | [a, b, c] \<Rightarrow>
          (let V = (a mod 16) * 4096 + (b mod 64) * 64 + c mod 64
           in if is_cont b \<and> is_cont c \<and> 2048 \<le> V \<and> \<not> (55296 \<le> V \<and> V \<le> 57343)
              then Some V else None)
      | [a, b, c, d] \<Rightarrow>
          (let V = (a mod 8) * 262144 + (b mod 64) * 4096 + (c mod 64) * 64 + d mod 64
           in if is_cont b \<and> is_cont c \<and> is_cont d \<and> 65536 \<le> V \<and> V \<le> 1114111
              then Some V else None)
      | _ \<Rightarrow> None)"

definition UTF16EncodeCodePoint :: "nat \<Rightarrow> jsstring" where
  "UTF16EncodeCodePoint V =
     (if V \<le> 65535 then [of_nat V]
      else [of_nat ((V - 65536) div 1024 + 55296), of_nat ((V - 65536) mod 1024 + 56320)])"

text \<open>
  One escape, read after its \<open>%\<close>: the code units it stands for and the rest of the
  input, or \<open>None\<close> where Decode throws.
\<close>

definition decode_escape :: "jsstring \<Rightarrow> (jsstring \<times> jsstring) option" where
  "decode_escape s =
     (case s of
        h # l # s' \<Rightarrow>
          (case hex_octet h l of None \<Rightarrow> None
           | Some B \<Rightarrow>
               (let n = leading_ones B in
                if n = 0 then Some ([of_nat B], s')
                else if n = 1 \<or> 4 < n then None
                else (case continuation (n - 1) s' of None \<Rightarrow> None
                      | Some (octets, s'') \<Rightarrow>
                          (case utf8_code_point (B # octets) of None \<Rightarrow> None
                           | Some V \<Rightarrow> Some (UTF16EncodeCodePoint V, s'')))))
      | _ \<Rightarrow> None)"

lemma continuation_length: "continuation j s = Some (bs, r) \<Longrightarrow> length r \<le> length s"
proof (induction j s arbitrary: bs r rule: continuation.induct)
  case (2 j p h l s)
  then obtain b bs' where "continuation j s = Some (bs', r)"
    by (auto split: if_splits option.splits)
  with 2 have "length r \<le> length s"
    by (auto split: if_splits option.splits)
  then show ?case by simp
qed auto

lemma decode_escape_length: "decode_escape s = Some (u, r) \<Longrightarrow> length r \<le> length s"
  by (auto simp: decode_escape_def Let_def split: list.splits option.splits if_splits
           dest: continuation_length)

function Decode :: "jsstring \<Rightarrow> error + jsstring" where
  "Decode [] = Inr []"
| "Decode (c # s) =
     (if c \<noteq> 0x25
      then (case Decode s of Inl e \<Rightarrow> Inl e | Inr R \<Rightarrow> Inr (c # R))
      else (case decode_escape s of None \<Rightarrow> Inl URIError
            | Some (S, rest) \<Rightarrow> (case Decode rest of Inl e \<Rightarrow> Inl e | Inr R \<Rightarrow> Inr (S @ R))))"
  by pat_completeness auto
termination
  by (relation "measure length") (auto dest: decode_escape_length)

definition decodeURIComponent :: "jsstring \<Rightarrow> error + jsstring" where
  "decodeURIComponent s = Decode s"

section \<open>Values, configuration objects and the heap\<close>

text \<open>
  What a decode function may return: the primitive values \<open>undefined\<close>, \<open>null\<close>,
  booleans and strings. \<open>toString\<close> is the method call \<open>v.toString()\<close>, which throws
  TypeError on \<open>undefined\<close> and \<open>null\<close>.
\<close>

datatype jsval = JUndefined | JNull | JBool bool | JString jsstring

definition toString :: "jsval \<Rightarrow> error + jsstring" where
  "toString v =
     (case v of
        JUndefined \<Rightarrow> Inl TypeError
      | JNull \<Rightarrow> Inl TypeError
      | JBool b \<Rightarrow> Inr (if b then js ''true'' else js ''false'')
      | JString s \<Rightarrow> Inr s)"

definition truthy :: "jsval \<Rightarrow> bool" where
  "truthy v =
     (case v of JUndefined \<Rightarrow> False | JNull \<Rightarrow> False | JBool b \<Rightarrow> b | JString s \<Rightarrow> s \<noteq> [])"

text \<open>
  A decode function takes the input (a string, or \<open>None\<close> for \<open>null\<close>) and the context
  (\<open>None\<close> for \<open>null\<close> when the input is a key, the decoded key when the input is a
  value); a throw is \<open>Inl\<close>. The source calls it as a method of the configuration, so
  \<open>this\<close> is the configuration; here a decode function is a closure that has captured
  what it reads from there. Decode functions and the \<open>test\<close> method of \<open>array_keys\<close>
  are functions of their arguments only.
\<close>

type_synonym decode_fn = "jsstring option \<Rightarrow> jsstring option \<Rightarrow> error + jsval"

text \<open>
  The separator is whatever \<open>String.prototype.split\<close> accepts: a string, or a regular
  expression, which is represented by the way it splits a string.
\<close>

datatype separator = Sep_string jsstring | Sep_regexp "jsstring \<Rightarrow> jsstring list"

definition split :: "jsstring \<Rightarrow> separator option \<Rightarrow> jsstring list" where
  "split S sep =
     (case sep of
        None \<Rightarrow> [S]
      | Some (Sep_string R) \<Rightarrow> split_string R S
      | Some (Sep_regexp f) \<Rightarrow> f S)"

text \<open>
  An object that carries configuration: the options argument, the function object
  \<open>$.parseQuery\<close> with the defaults as its properties, and the per-call \<open>config\<close>.
  A property that is absent or \<open>undefined\<close> is \<open>None\<close>.
\<close>

record opts =
  query :: "jsstring option"
  separator :: "separator option"
  decode :: "decode_fn option"
  default_decode :: "decode_fn option"
  array_keys :: "(jsstring \<Rightarrow> bool) option"

definition empty_opts :: opts where
  "empty_opts =
     \<lparr>query = None, separator = None, decode = None, default_decode = None, array_keys = None\<rparr>"

text \<open>
  The heap: the objects by address, the next unused address, and the host's
  \<open>window.location.search\<close>. \<open>$.parseQuery\<close> lives at address 0. The objects in use are
  those below \<open>fresh\<close>; a new object is put at \<open>fresh\<close>.
\<close>

type_synonym addr = nat

record world =
  objects :: "addr \<Rightarrow> opts"
  fresh :: addr
  location_search :: jsstring

definition parseQuery_obj :: addr where
  "parseQuery_obj = 0"

definition alloc :: "world \<Rightarrow> opts \<Rightarrow> addr \<times> world" where
  "alloc w b = (fresh w, w\<lparr>objects := (objects w)(fresh w := b), fresh := Suc (fresh w)\<rparr>)"

text \<open>
  \<open>$.extend(target, src1, src2)\<close> of jQuery: for each source that is not \<open>null\<close> or
  \<open>undefined\<close>, in order, every property of the source whose value is not \<open>undefined\<close> is
  assigned to the target. Only the target is written.
\<close>

definition copy_props :: "opts \<Rightarrow> opts \<Rightarrow> opts" where
  "copy_props target src =
     \<lparr>query = (case query src of None \<Rightarrow> query target | Some v \<Rightarrow> Some v),
      separator = (case separator src of None \<Rightarrow> separator target | Some v \<Rightarrow> Some v),
      decode = (case decode src of None \<Rightarrow> decode target | Some v \<Rightarrow> Some v),
      default_decode =
        (case default_decode src of None \<Rightarrow> default_decode target | Some v \<Rightarrow> Some v),
      array_keys = (case array_keys src of None \<Rightarrow> array_keys target | Some v \<Rightarrow> Some v)\<rparr>"

fun jQuery_extend :: "world \<Rightarrow> addr \<Rightarrow> addr option list \<Rightarrow> world" where
  "jQuery_extend w target [] = w"
| "jQuery_extend w target (None # srcs) = jQuery_extend w target srcs"
| "jQuery_extend w target (Some src # srcs) =
     jQuery_extend
       (w\<lparr>objects := (objects w)(target := copy_props (objects w target) (objects w src))\<rparr>)
       target srcs"

section \<open>The result object\<close>

text \<open>
  \<open>params\<close> starts as the object literal \<open>{}\<close>, whose prototype is \<open>Object.prototype\<close>.
  Its own properties hold a decoded value or an array of decoded values. Reading
  \<open>params[key]\<close> finds an own property first and then the properties of the prototype;
  those are functions, except \<open>__proto__\<close>, an accessor whose getter returns the
  prototype object and whose setter changes the prototype when given an object or
  \<open>null\<close> and does nothing when given any other value. Once the prototype is \<open>null\<close>
  nothing is inherited.
\<close>

datatype pvalue = is_Scalar: Scalar jsval | is_Sequence: Sequence "jsval list"

record params =
  own :: "jsstring \<rightharpoonup> pvalue"
  has_proto :: bool

definition empty_params :: params where
  "empty_params = \<lparr>own = Map.empty, has_proto = True\<rparr>"

definition Object_prototype_names :: "jsstring list" where
  "Object_prototype_names =
     [js ''constructor'', js ''hasOwnProperty'', js ''isPrototypeOf'',
      js ''propertyIsEnumerable'', js ''toLocaleString'', js ''toString'', js ''valueOf'',
      js ''__defineGetter__'', js ''__defineSetter__'', js ''__lookupGetter__'',
      js ''__lookupSetter__'', js ''__proto__'']"

datatype property = Absent | Own pvalue | Inherited

definition get_prop :: "params \<Rightarrow> jsstring \<Rightarrow> property" where
  "get_prop params key =
     (case own params key of
        Some v \<Rightarrow> Own v
      | None \<Rightarrow> if has_proto params \<and> key \<in> set Object_prototype_names then Inherited
                else Absent)"

text \<open>\<open>params[key] = value\<close> for a decoded value.\<close>

definition set_prop :: "params \<Rightarrow> jsstring \<Rightarrow> jsval \<Rightarrow> params" where
  "set_prop params key v =
     (if own params key = None \<and> has_proto params \<and> key = js ''__proto__''
      then (if v = JNull then params\<lparr>has_proto := False\<rparr> else params)
      else params\<lparr>own := (own params)(key \<mapsto> Scalar v)\<rparr>)"

text \<open>
  \<open>params[key] = params[key] || []; params[key].push(value);\<close>
  An absent property, or an own one that is falsy, becomes a new array with the value.
  An own array gets the value appended. Any other truthy thing found under the key
  (an own string or \<open>true\<close>, or the function or object inherited from the prototype) is
  assigned back as it is and has no \<open>push\<close> method, so the call throws TypeError.
\<close>

definition push_prop :: "params \<Rightarrow> jsstring \<Rightarrow> jsval \<Rightarrow> error + params" where
  "push_prop params key v =
     (case get_prop params key of
        Absent \<Rightarrow> Inr (params\<lparr>own := (own params)(key \<mapsto> Sequence [v])\<rparr>)
      | Own (Sequence vs) \<Rightarrow> Inr (params\<lparr>own := (own params)(key \<mapsto> Sequence (vs @ [v]))\<rparr>)
      | Own (Scalar u) \<Rightarrow>
          if truthy u then Inl TypeError
          else Inr (params\<lparr>own := (own params)(key \<mapsto> Sequence [v])\<rparr>)
      | Inherited \<Rightarrow> Inl TypeError)"

section \<open>\<open>$.parseQuery\<close>\<close>

text \<open>
  Lines 199 to 205 of the source: the function that is both \<open>$.parseQuery.decode\<close> and
  \<open>$.parseQuery.default_decode\<close>,
  \<^verbatim>\<open>decodeURIComponent((string || "").replace('+', ' '))\<close>,
  the \<open>array_keys\<close> object whose \<open>test\<close> returns false, and the separator \<open>"&"\<close>.
  The function has one parameter and ignores the context it is called with.
\<close>

definition or_empty :: "jsstring option \<Rightarrow> jsstring" where
  "or_empty string = (case string of None \<Rightarrow> [] | Some s \<Rightarrow> if s = [] then [] else s)"

definition default_decode_fn :: "jsstring option \<Rightarrow> error + jsval" where
  "default_decode_fn string =
     (case decodeURIComponent (replace_first 0x2B 0x20 (or_empty string)) of
        Inl e \<Rightarrow> Inl e
      | Inr s \<Rightarrow> Inr (JString s))"

definition defaults :: opts where
  "defaults =
     \<lparr>query = None,
      separator = Some (Sep_string (js ''&'')),
      decode = Some (\<lambda>input context. default_decode_fn input),
      default_decode = Some (\<lambda>input context. default_decode_fn input),
      array_keys = Some (\<lambda>key. False)\<rparr>"

text \<open>The heap once the plugin is loaded, on a page whose query string is \<open>search\<close>.\<close>

definition loaded :: "jsstring \<Rightarrow> world" where
  "loaded search =
     \<lparr>objects = (\<lambda>a. empty_opts)(parseQuery_obj := defaults), fresh = 1,
      location_search = search\<rparr>"

text \<open>
  \<open>$.each(array, callback)\<close>: the callback runs on each element from left to right; a
  throw ends the loop and the call. (The callback of the source never returns \<open>false\<close>,
  which would end the loop early.)
\<close>

fun jQuery_each :: "'a list \<Rightarrow> ('s \<Rightarrow> 'a \<Rightarrow> error + 's) \<Rightarrow> 's \<Rightarrow> error + 's" where
  "jQuery_each [] callback s = Inr s"
| "jQuery_each (x # xs) callback s =
     (case callback s x of Inl e \<Rightarrow> Inl e | Inr s' \<Rightarrow> jQuery_each xs callback s')"

text \<open>
  The callback starts by computing the key and the value of its token, lines 186 to 188:
  \<^verbatim>\<open>
  var pair = param.split('='),
      key = config.decode(pair.shift(), null).toString(),
      value = config.decode(pair ? pair.join('=') : null, key);
  \<close>
  Calling a property that is \<open>undefined\<close> throws TypeError.
\<close>

definition key_and_value :: "opts \<Rightarrow> jsstring \<Rightarrow> error + (jsstring \<times> jsval)" where
  "key_and_value config param =
     (let pair = split param (Some (Sep_string (js ''=''))) in
      case decode config of None \<Rightarrow> Inl TypeError
      | Some config_decode \<Rightarrow>
      let (first, pair) = shift pair in
      case config_decode first None of Inl e \<Rightarrow> Inl e
      | Inr k \<Rightarrow>
      case toString k of Inl e \<Rightarrow> Inl e
      | Inr key \<Rightarrow>
      case config_decode (if array_truthy pair then Some (join (js ''='') pair) else None)
             (Some key) of Inl e \<Rightarrow> Inl e
      | Inr value \<Rightarrow> Inr (key, value))"

text \<open>
  Then it stores the value, lines 190 to 195:
  \<^verbatim>\<open>
  if (config.array_keys.test(key)) {
      params[key] = params[key] || [];
      params[key].push(value);
  } else {
      params[key] = value;
  }
  \<close>
\<close>

definition callback :: "opts \<Rightarrow> params \<Rightarrow> jsstring \<Rightarrow> error + params" where
  "callback config params param =
     (case key_and_value config param of Inl e \<Rightarrow> Inl e
      | Inr (key, value) \<Rightarrow>
      case array_keys config of None \<Rightarrow> Inl TypeError
      | Some test \<Rightarrow>
          if test key then push_prop params key value
          else Inr (set_prop params key value))"

text \<open>
  The argument of \<open>$.parseQuery\<close>: a string, an options object (by its address), or
  nothing.
\<close>

datatype arg = Arg_string jsstring | Arg_object addr | Arg_undefined

text \<open>
  Lines 174 to 198:
  \<^verbatim>\<open>
  var config = {query: window.location.search || ""},
      params = {};
  if (typeof options === 'string') {
      options = {query: options};
  }
  $.extend(config, $.parseQuery, options);
  config.query = config.query.replace(/^\?/, '');
  $.each(config.query.split(config.separator), function (i, param) { ... });
  return params;
  \<close>
  The result is the heap after the call and either the error thrown or the object
  returned.
\<close>

definition parseQuery :: "world \<Rightarrow> arg \<Rightarrow> world \<times> (error + params)" where
  "parseQuery w options =
     (let (config, w1) =
            alloc w (empty_opts\<lparr>query := Some (or_empty (Some (location_search w)))\<rparr>);
          params = empty_params;
          (options', w2) =
            (case options of
               Arg_string s \<Rightarrow>
                 (let (a, w') = alloc w1 (empty_opts\<lparr>query := Some s\<rparr>) in (Some a, w'))
             | Arg_object a \<Rightarrow> (Some a, w1)
             | Arg_undefined \<Rightarrow> (None, w1));
          w3 = jQuery_extend w2 config [Some parseQuery_obj, options']
      in case query (objects w3 config) of
           None \<Rightarrow> (w3, Inl TypeError)
         | Some q \<Rightarrow>
             (let q' = strip_question q;
                  w4 = w3\<lparr>objects := (objects w3)(config := (objects w3 config)\<lparr>query := Some q'\<rparr>)\<rparr>;
                  cfg = objects w4 config
              in (w4, jQuery_each (split q' (separator cfg)) (callback cfg) params)))"

section \<open>Example configurations\<close>

text \<open>
  A decode function that tells \<open>null\<close> from the empty string and otherwise decodes as the
  default does; the \<open>test\<close> of the regular expression \<open>/\[\]$/\<close>; the heap in which a
  caller has built one options object (at address 1) after the plugin was loaded; and
  three options objects.
\<close>

definition null_aware_decode :: decode_fn where
  "null_aware_decode input context =
     (case input of None \<Rightarrow> Inr (JString (js ''null'')) | Some s \<Rightarrow> default_decode_fn (Some s))"

definition ends_with_brackets :: "jsstring \<Rightarrow> bool" where
  "ends_with_brackets key = (drop (length key - 2) key = js ''[]'')"

definition with_options :: "opts \<Rightarrow> world" where
  "with_options options = snd (alloc (loaded []) options)"

definition null_aware_example :: "jsstring \<Rightarrow> opts" where
  "null_aware_example q = empty_opts\<lparr>query := Some q, decode := Some null_aware_decode\<rparr>"

definition array_example :: opts where
  "array_example =
     empty_opts\<lparr>query := Some (js ''a[]=b&a[]=c&d=e&d=f''),
                array_keys := Some ends_with_brackets\<rparr>"

definition constructor_example :: opts where
  "constructor_example =
     empty_opts\<lparr>query := Some (js ''constructor=b''),
                array_keys := Some (\<lambda>key. key = js ''constructor'')\<rparr>"

text \<open>The elements collected under a key, for stating what an array holds.\<close>

definition values_of :: "params \<Rightarrow> jsstring \<Rightarrow> jsval list" where
  "values_of params key = (case own params key of Some (Sequence vs) \<Rightarrow> vs | _ \<Rightarrow> [])"

section \<open>Evaluation and auxiliary facts\<close>

lemmas eval_defs = js_def split_def split_string_def shift_def array_truthy_def strip_question_def
  decodeURIComponent_def decode_escape_def hex_octet_def hex_digit_def leading_ones_def
  utf8_code_point_def is_cont_def UTF16EncodeCodePoint_def toString_def truthy_def
  empty_opts_def alloc_def copy_props_def empty_params_def Object_prototype_names_def
  get_prop_def set_prop_def push_prop_def or_empty_def default_decode_fn_def defaults_def
  loaded_def key_and_value_def callback_def parseQuery_obj_def Let_def
  with_options_def null_aware_decode_def ends_with_brackets_def null_aware_example_def
  array_example_def constructor_example_def

subsection \<open>Splitting at the first separator\<close>

lemma split_from_nonempty: "split_from R cur S \<noteq> []"
  by (induction R cur S rule: split_from.induct) auto

lemma split_from_no_sep: "e \<notin> set S \<Longrightarrow> split_from [e] cur S = [cur @ S]"
  by (induction S arbitrary: cur) auto

lemma split_from_first_sep:
  "e \<notin> set pre \<Longrightarrow> split_from [e] cur (pre @ e # post) = (cur @ pre) # split_from [e] [] post"
  by (induction pre arbitrary: cur) auto

lemma join_Cons: "ys \<noteq> [] \<Longrightarrow> join sep (x # ys) = x @ sep @ join sep ys"
  by (cases ys) auto

lemma join_split_from: "join [e] (split_from [e] cur S) = cur @ S"
  by (induction S arbitrary: cur) (auto simp: join_Cons split_from_nonempty)

lemma shift_split_no_sep:
  "e \<notin> set S \<Longrightarrow> shift (split_string [e] S) = (Some S, [])"
  by (simp add: split_string_def shift_def split_from_no_sep)

lemma shift_split_first_sep:
  "e \<notin> set pre \<Longrightarrow>
   shift (split_string [e] (pre @ e # post)) = (Some pre, split_from [e] [] post)"
  by (simp add: split_string_def shift_def split_from_first_sep)

lemma takeWhile_no_sep: "e \<notin> set S \<Longrightarrow> takeWhile (\<lambda>c. c \<noteq> e) S = S"
  by (induction S) auto

lemma dropWhile_no_sep: "e \<notin> set S \<Longrightarrow> dropWhile (\<lambda>c. c \<noteq> e) S = []"
  by (induction S) auto

lemma takeWhile_first_sep:
  "e \<notin> set pre \<Longrightarrow> takeWhile (\<lambda>c. c \<noteq> e) (pre @ e # post) = pre"
  by (induction pre) auto

lemma dropWhile_first_sep:
  "e \<notin> set pre \<Longrightarrow> dropWhile (\<lambda>c. c \<noteq> e) (pre @ e # post) = e # post"
  by (induction pre) auto

lemma raw_key: "fst (shift (split_string [e] S)) = Some (takeWhile (\<lambda>c. c \<noteq> e) S)"
proof (cases "e \<in> set S")
  case False
  then show ?thesis
    by (simp add: shift_split_no_sep takeWhile_no_sep)
next
  case True
  then obtain pre post where S: "S = pre @ e # post" and pre: "e \<notin> set pre"
    by (auto dest: split_list_first)
  show ?thesis
    unfolding S using pre by (simp add: shift_split_first_sep takeWhile_first_sep)
qed

lemma raw_value:
  "join [e] (snd (shift (split_string [e] S))) = tl (dropWhile (\<lambda>c. c \<noteq> e) S)"
proof (cases "e \<in> set S")
  case False
  then show ?thesis
    by (simp add: shift_split_no_sep dropWhile_no_sep)
next
  case True
  then obtain pre post where S: "S = pre @ e # post" and pre: "e \<notin> set pre"
    by (auto dest: split_list_first)
  show ?thesis
    unfolding S using pre
    by (simp add: shift_split_first_sep dropWhile_first_sep join_split_from)
qed

lemma js_equals: "js ''='' = [0x3D]"
  by (simp add: js_def)

subsection \<open>The call as a loop over the tokens; what the call leaves in the heap\<close>

lemma parseQuery_loop:
  "\<exists>q. query (objects (fst (parseQuery w options)) (fresh w)) = Some q \<and>
       snd (parseQuery w options) =
         jQuery_each (split q (separator (objects (fst (parseQuery w options)) (fresh w))))
           (callback (objects (fst (parseQuery w options)) (fresh w))) empty_params"
  by (cases options)
     (auto simp: parseQuery_def alloc_def Let_def copy_props_def empty_opts_def
           split: option.splits)

lemma parseQuery_string_defaults:
  assumes "objects w parseQuery_obj = defaults" and "parseQuery_obj < fresh w"
  shows "snd (parseQuery w (Arg_string s)) =
           jQuery_each (split (strip_question s) (Some (Sep_string (js ''&''))))
             (callback (defaults\<lparr>query := Some (strip_question s)\<rparr>)) empty_params"
  using assms
  by (simp add: parseQuery_def alloc_def Let_def copy_props_def empty_opts_def defaults_def)

lemma objects_unchanged:
  "a < fresh w \<Longrightarrow> objects (fst (parseQuery w options)) a = objects w a"
  by (cases options)
     (auto simp: parseQuery_def alloc_def Let_def split: option.splits)

lemma location_unchanged:
  "location_search (fst (parseQuery w options)) = location_search w"
  by (cases options)
     (auto simp: parseQuery_def alloc_def Let_def split: option.splits)

lemma fresh_grows: "fresh w \<le> fresh (fst (parseQuery w options))"
  by (cases options)
     (auto simp: parseQuery_def alloc_def Let_def split: option.splits)

subsection \<open>A token without \<open>=\<close> is processed like the token followed by \<open>=\<close>\<close>

lemma key_and_value_valueless:
  assumes "0x3D \<notin> set param"
  shows "key_and_value config param = key_and_value config (param @ js ''='')"
proof -
  have a: "shift (split_string [0x3D] param) = (Some param, [])"
    using assms by (rule shift_split_no_sep)
  have b: "shift (split_string [0x3D] (param @ 0x3D # [])) = (Some param, split_from [0x3D] [] [])"
    using assms by (rule shift_split_first_sep)
  show ?thesis
    using a b
    by (cases "decode config")
       (simp_all add: key_and_value_def split_def js_equals array_truthy_def
                 cong: sum.case_cong)
qed

subsection \<open>The loop invariant: arrays under the keys that \<open>array_keys\<close> matches\<close>

lemma callback_keeps_kinds:
  assumes "array_keys config = Some test"
      and "callback config params param = Inr params'"
      and "\<And>k v. own params k = Some v \<Longrightarrow> is_Sequence v = test k"
      and "own params' key = Some v"
  shows "is_Sequence v = test key"
  using assms
  by (auto simp: callback_def push_prop_def set_prop_def get_prop_def
           split: option.splits sum.splits prod.splits if_splits property.splits pvalue.splits)

lemma each_keeps_kinds:
  assumes "array_keys config = Some test"
      and "jQuery_each tokens (callback config) params = Inr params'"
      and "\<And>k v. own params k = Some v \<Longrightarrow> is_Sequence v = test k"
      and "own params' key = Some v"
  shows "is_Sequence v = test key"
  using assms
proof (induction tokens arbitrary: params)
  case Nil
  then show ?case by simp
next
  case (Cons t ts)
  from Cons.prems(2) obtain p1 where t: "callback config params t = Inr p1"
    and ts: "jQuery_each ts (callback config) p1 = Inr params'"
    by (auto split: sum.splits)
  have "\<And>k v. own p1 k = Some v \<Longrightarrow> is_Sequence v = test k"
    using callback_keeps_kinds[OF Cons.prems(1) t] Cons.prems(3) by blast
  from Cons.IH[OF Cons.prems(1) ts this Cons.prems(4)] show ?case .
qed

subsection \<open>Replacing the first occurrence; the example heap\<close>

lemma replace_first_none: "a \<notin> set s \<Longrightarrow> replace_first a b s = s"
  by (induction s) auto

lemma replace_first_first:
  "a \<notin> set pre \<Longrightarrow> replace_first a b (pre @ a # post) = pre @ b # post"
  by (induction pre) auto

lemma with_options_fresh: "fresh (with_options options) = 2"
  by (simp add: with_options_def alloc_def loaded_def)

subsection \<open>What the loop stores under a key\<close>

lemma callback_array_key:
  assumes "array_keys config = Some test" and "test key"
      and "\<And>k v. own params k = Some v \<Longrightarrow> is_Sequence v = test k"
      and "key_and_value config param = Inr (k, v)"
      and "callback config params param = Inr params'"
  shows "own params' key =
           (if k = key then Some (Sequence (values_of params key @ [v])) else own params key)"
  using assms
  by (auto simp: callback_def push_prop_def set_prop_def get_prop_def values_of_def
           split: option.splits if_splits property.splits pvalue.splits)

lemma callback_scalar_key:
  assumes "array_keys config = Some test" and "\<not> test key" and "key \<noteq> js ''__proto__''"
      and "key_and_value config param = Inr (k, v)"
      and "callback config params param = Inr params'"
  shows "own params' key = (if k = key then Some (Scalar v) else own params key)"
  using assms
  by (auto simp: callback_def push_prop_def set_prop_def get_prop_def
           split: option.splits if_splits property.splits pvalue.splits)

lemma each_array_key:
  assumes "array_keys config = Some test" and "test key"
      and "\<And>k v. own params k = Some v \<Longrightarrow> is_Sequence v = test k"
      and "map (key_and_value config) tokens = map Inr kvs"
      and "jQuery_each tokens (callback config) params = Inr params'"
  shows "own params' key =
           (if key \<in> fst ` set kvs
            then Some (Sequence (values_of params key @ map snd (filter (\<lambda>kv. fst kv = key) kvs)))
            else own params key)"
  using assms(3-5)
proof (induction tokens arbitrary: params kvs)
  case Nil
  then show ?case by simp
next
  case (Cons t ts)
  from Cons.prems(2) obtain k v rest where kvs: "kvs = (k, v) # rest"
    and t: "key_and_value config t = Inr (k, v)"
    and ts: "map (key_and_value config) ts = map Inr rest"
    by (cases kvs) auto
  from Cons.prems(3) obtain p1 where step: "callback config params t = Inr p1"
    and run: "jQuery_each ts (callback config) p1 = Inr params'"
    by (auto split: sum.splits)
  have kinds: "\<And>k v. own p1 k = Some v \<Longrightarrow> is_Sequence v = test k"
    using callback_keeps_kinds[OF assms(1) step] Cons.prems(1) by blast
  have p1: "own p1 key =
      (if k = key then Some (Sequence (values_of params key @ [v])) else own params key)"
    using callback_array_key[OF assms(1,2) _ t step] Cons.prems(1) by blast
  have IH: "own params' key =
      (if key \<in> fst ` set rest
       then Some (Sequence (values_of p1 key @ map snd (filter (\<lambda>kv. fst kv = key) rest)))
       else own p1 key)"
    using Cons.IH[OF kinds ts run] by blast
  have none: "key \<notin> fst ` set rest \<Longrightarrow> filter (\<lambda>kv. fst kv = key) rest = []"
    by (auto simp: filter_empty_conv)
  show ?case
    using p1 IH none by (auto simp: kvs values_of_def)
qed

lemma each_scalar_key:
  assumes "array_keys config = Some test" and "\<not> test key" and "key \<noteq> js ''__proto__''"
      and "map (key_and_value config) tokens = map Inr kvs"
      and "jQuery_each tokens (callback config) params = Inr params'"
  shows "own params' key =
           (case map_of (rev kvs) key of None \<Rightarrow> own params key | Some v \<Rightarrow> Some (Scalar v))"
  using assms(4,5)
proof (induction tokens arbitrary: params kvs)
  case Nil
  then show ?case by simp
next
  case (Cons t ts)
  from Cons.prems(1) obtain k v rest where kvs: "kvs = (k, v) # rest"
    and t: "key_and_value config t = Inr (k, v)"
    and ts: "map (key_and_value config) ts = map Inr rest"
    by (cases kvs) auto
  from Cons.prems(2) obtain p1 where step: "callback config params t = Inr p1"
    and run: "jQuery_each ts (callback config) p1 = Inr params'"
    by (auto split: sum.splits)
  have p1: "own p1 key = (if k = key then Some (Scalar v) else own params key)"
    by (rule callback_scalar_key[OF assms(1-3) t step])
  have IH: "own params' key =
      (case map_of (rev rest) key of None \<Rightarrow> own p1 key | Some v \<Rightarrow> Some (Scalar v))"
    by (rule Cons.IH[OF ts run])
  show ?case
    using p1 IH by (auto simp: kvs map_add_def split: option.splits)
qed

lemma each_decodes_all:
  assumes "jQuery_each tokens (callback config) params = Inr params'"
  shows "\<exists>kvs. map (key_and_value config) tokens = map Inr kvs"
  using assms
proof (induction tokens arbitrary: params)
  case Nil
  then show ?case by simp
next
  case (Cons t ts)
  from Cons.prems obtain p1 where step: "callback config params t = Inr p1"
    and run: "jQuery_each ts (callback config) p1 = Inr params'"
    by (auto split: sum.splits)
  from step obtain kv where "key_and_value config t = Inr kv"
    by (auto simp: callback_def split: sum.splits)
  moreover from Cons.IH[OF run] obtain rest where "map (key_and_value config) ts = map Inr rest"
    by blast
  ultimately have "map (key_and_value config) (t # ts) = map Inr (kv # rest)"
    by simp
  then show ?case by blast
qed

text \<open>
  What the loop builds when it returns, for a key that \<open>array_keys\<close> matches and for a
  key, other than \<open>__proto__\<close>, that it does not match; \<open>kvs\<close> are the decoded keys and
  values of the tokens, in order.
\<close>

lemma array_key_collects_in_order:
  assumes "array_keys config = Some test" and "test key"
      and "map (key_and_value config) tokens = map Inr kvs"
      and "jQuery_each tokens (callback config) empty_params = Inr params"
      and "key \<in> fst ` set kvs"
  shows "own params key = Some (Sequence (map snd (filter (\<lambda>kv. fst kv = key) kvs)))"
  using each_array_key[OF assms(1,2) _ assms(3,4)] assms(5)
  by (simp add: empty_params_def values_of_def)

lemma scalar_key_last_wins:
  assumes "array_keys config = Some test" and "\<not> test key" and "key \<noteq> js ''__proto__''"
      and "map (key_and_value config) tokens = map Inr kvs"
      and "jQuery_each tokens (callback config) empty_params = Inr params"
  shows "own params key = map_option Scalar (map_of (rev kvs) key)"
  using each_scalar_key[OF assms]
  by (simp add: empty_params_def split: option.splits)

text \<open>
  The examples of the documentation for repeated keys:
  \<open>$.parseQuery({query: "a[]=b&a[]=c&d=e&d=f", array_keys: /\[\]$/})\<close> and
  \<open>$.parseQuery("a=b&a=c")\<close>.
\<close>

lemma array_example_result:
  "snd (parseQuery (with_options array_example) (Arg_object 1)) =
     Inr \<lparr>own = [js ''a[]'' \<mapsto> Sequence [JString (js ''b''), JString (js ''c'')],
                 js ''d'' \<mapsto> Scalar (JString (js ''f''))],
          has_proto = True\<rparr>"
  by (simp add: parseQuery_def eval_defs)

lemma last_wins_example:
  "snd (parseQuery (loaded []) (Arg_string (js ''a=b&a=c''))) =
     Inr \<lparr>own = [js ''a'' \<mapsto> Scalar (JString (js ''c''))], has_proto = True\<rparr>"
  by (simp add: parseQuery_def eval_defs)

section \<open>The claims\<close>

text \<open>
  C8: under the default configuration \<open>$.parseQuery("")\<close> returns \<open>{"": ""}\<close>: the empty
  query string splits into one token, the empty string, whose key and value both decode
  to the empty string.
\<close>

theorem parseQuery_empty_string:
  assumes "objects w parseQuery_obj = defaults" and "parseQuery_obj < fresh w"
  shows "split [] (separator defaults) = [[]] \<and>
         snd (parseQuery w (Arg_string [])) =
           Inr \<lparr>own = [[] \<mapsto> Scalar (JString [])], has_proto = True\<rparr>"
  using assms by (simp add: parseQuery_string_defaults) (simp add: eval_defs)

theorem parseQuery_empty_string_witness:
  "objects (loaded []) parseQuery_obj = defaults \<and> parseQuery_obj < fresh (loaded []) \<and>
   split [] (separator defaults) = [[]] \<and>
   snd (parseQuery (loaded []) (Arg_string [])) =
     Inr \<lparr>own = [[] \<mapsto> Scalar (JString [])], has_proto = True\<rparr>"
proof -
  have h1: "objects (loaded []) parseQuery_obj = defaults"
    by (simp add: loaded_def)
  have h2: "parseQuery_obj < fresh (loaded [])"
    by (simp add: loaded_def parseQuery_obj_def)
  show ?thesis
    using h1 h2 parseQuery_empty_string[OF h1 h2] by (intro conjI) simp_all
qed

text \<open>
  C3: the default decode function maps \<open>null\<close> to the empty string, replaces only the first
  literal \<open>+\<close> of its input by a space and percent-decodes the result; under the default
  configuration \<open>$.parseQuery("a+b=c%2Bd&%C3%A6=ae")\<close> returns
  \<open>{"a b": "c+d", "\u00e6": "ae"}\<close>.
\<close>

theorem default_decode_plus_then_percent:
  assumes "objects w parseQuery_obj = defaults" and "parseQuery_obj < fresh w"
      and "0x2B \<notin> set pre"
  shows "default_decode_fn None = Inr (JString []) \<and>
         default_decode_fn (Some pre) =
           (case decodeURIComponent pre of Inl e \<Rightarrow> Inl e | Inr s \<Rightarrow> Inr (JString s)) \<and>
         default_decode_fn (Some (pre @ 0x2B # post)) =
           (case decodeURIComponent (pre @ 0x20 # post) of
              Inl e \<Rightarrow> Inl e | Inr s \<Rightarrow> Inr (JString s)) \<and>
         snd (parseQuery w (Arg_string (js ''a+b=c%2Bd&%C3%A6=ae''))) =
           Inr \<lparr>own = [js ''a b'' \<mapsto> Scalar (JString (js ''c+d'')),
                       [0xE6] \<mapsto> Scalar (JString (js ''ae''))],
                has_proto = True\<rparr>"
proof (intro conjI)
  show "default_decode_fn None = Inr (JString [])"
    by (simp add: default_decode_fn_def or_empty_def decodeURIComponent_def)
  show "default_decode_fn (Some pre) =
          (case decodeURIComponent pre of Inl e \<Rightarrow> Inl e | Inr s \<Rightarrow> Inr (JString s))"
    using assms(3) by (simp add: default_decode_fn_def or_empty_def replace_first_none)
  show "default_decode_fn (Some (pre @ 0x2B # post)) =
          (case decodeURIComponent (pre @ 0x20 # post) of
             Inl e \<Rightarrow> Inl e | Inr s \<Rightarrow> Inr (JString s))"
    using assms(3) by (simp add: default_decode_fn_def or_empty_def replace_first_first)
  show "snd (parseQuery w (Arg_string (js ''a+b=c%2Bd&%C3%A6=ae''))) =
          Inr \<lparr>own = [js ''a b'' \<mapsto> Scalar (JString (js ''c+d'')),
                      [0xE6] \<mapsto> Scalar (JString (js ''ae''))],
               has_proto = True\<rparr>"
    using assms(1,2) by (simp add: parseQuery_string_defaults) (simp add: eval_defs)
qed

theorem default_decode_plus_then_percent_witness:
  "objects (loaded []) parseQuery_obj = defaults \<and> parseQuery_obj < fresh (loaded []) \<and>
   0x2B \<notin> set (js ''a'') \<and>
   default_decode_fn (Some (js ''a+b+c'')) = Inr (JString (js ''a b+c'')) \<and>
   snd (parseQuery (loaded []) (Arg_string (js ''a+b=c%2Bd&%C3%A6=ae''))) =
     Inr \<lparr>own = [js ''a b'' \<mapsto> Scalar (JString (js ''c+d'')),
                 [0xE6] \<mapsto> Scalar (JString (js ''ae''))],
          has_proto = True\<rparr>"
proof -
  have h1: "objects (loaded []) parseQuery_obj = defaults"
    by (simp add: loaded_def)
  have h2: "parseQuery_obj < fresh (loaded [])"
    by (simp add: loaded_def parseQuery_obj_def)
  have h3: "0x2B \<notin> set (js ''a'')"
    by (simp add: js_def)
  note inst = default_decode_plus_then_percent[OF h1 h2 h3, of "js ''b+c''"]
  have "default_decode_fn (Some (js ''a+b+c'')) = Inr (JString (js ''a b+c''))"
    using inst by (simp add: js_def decodeURIComponent_def)
  with h1 h2 h3 inst show ?thesis by (intro conjI) simp_all
qed


text \<open>
  C4: only the first \<open>=\<close> of a token separates key from value. For every token, after
  \<open>pair.shift()\<close> the raw key is the token up to its first \<open>=\<close>, and the string handed
  to decode as the raw value is everything after that \<open>=\<close>, further \<open>=\<close> included. So
  for every configuration and every token, the key and value the callback computes,
  and what it stores, are those of decode applied to these two strings. Under the
  default configuration \<open>$.parseQuery("a=b=c&%3D=%26")\<close> returns
  \<open>{"a": "b=c", "=": "&"}\<close>.
\<close>

theorem only_first_equals_separates:
  assumes "objects w parseQuery_obj = defaults" and "parseQuery_obj < fresh w"
      and "shift (split param (Some (Sep_string (js ''='')))) = (first, pair)"
  shows "first = Some (takeWhile (\<lambda>c. c \<noteq> 0x3D) param) \<and>
         (if array_truthy pair then Some (join (js ''='') pair) else None) =
           Some (tl (dropWhile (\<lambda>c. c \<noteq> 0x3D) param)) \<and>
         key_and_value config param =
           (case decode config of None \<Rightarrow> Inl TypeError
            | Some config_decode \<Rightarrow>
            case config_decode (Some (takeWhile (\<lambda>c. c \<noteq> 0x3D) param)) None of
              Inl e \<Rightarrow> Inl e
            | Inr k \<Rightarrow>
            case toString k of Inl e \<Rightarrow> Inl e
            | Inr key \<Rightarrow>
            case config_decode (Some (tl (dropWhile (\<lambda>c. c \<noteq> 0x3D) param))) (Some key) of
              Inl e \<Rightarrow> Inl e
            | Inr value \<Rightarrow> Inr (key, value)) \<and>
         callback config params param =
           (case decode config of None \<Rightarrow> Inl TypeError
            | Some config_decode \<Rightarrow>
            case config_decode (Some (takeWhile (\<lambda>c. c \<noteq> 0x3D) param)) None of
              Inl e \<Rightarrow> Inl e
            | Inr k \<Rightarrow>
            case toString k of Inl e \<Rightarrow> Inl e
            | Inr key \<Rightarrow>
            case config_decode (Some (tl (dropWhile (\<lambda>c. c \<noteq> 0x3D) param))) (Some key) of
              Inl e \<Rightarrow> Inl e
            | Inr value \<Rightarrow>
            case array_keys config of None \<Rightarrow> Inl TypeError
            | Some test \<Rightarrow>
                if test key then push_prop params key value
                else Inr (set_prop params key value)) \<and>
         snd (parseQuery w (Arg_string (js ''a=b=c&%3D=%26''))) =
           Inr \<lparr>own = [js ''a'' \<mapsto> Scalar (JString (js ''b=c'')),
                       js ''='' \<mapsto> Scalar (JString (js ''&''))],
                has_proto = True\<rparr>"
proof (intro conjI)
  have pair: "shift (split_string [0x3D] param) = (first, pair)"
    using assms(3) by (simp add: split_def js_equals)
  show first: "first = Some (takeWhile (\<lambda>c. c \<noteq> 0x3D) param)"
    using raw_key[of "0x3D" param] pair by simp
  show rest: "(if array_truthy pair then Some (join (js ''='') pair) else None) =
          Some (tl (dropWhile (\<lambda>c. c \<noteq> 0x3D) param))"
    using raw_value[of "0x3D" param] pair by (simp add: array_truthy_def js_equals)
  show kv: "key_and_value config param =
           (case decode config of None \<Rightarrow> Inl TypeError
            | Some config_decode \<Rightarrow>
            case config_decode (Some (takeWhile (\<lambda>c. c \<noteq> 0x3D) param)) None of
              Inl e \<Rightarrow> Inl e
            | Inr k \<Rightarrow>
            case toString k of Inl e \<Rightarrow> Inl e
            | Inr key \<Rightarrow>
            case config_decode (Some (tl (dropWhile (\<lambda>c. c \<noteq> 0x3D) param))) (Some key) of
              Inl e \<Rightarrow> Inl e
            | Inr value \<Rightarrow> Inr (key, value))"
    unfolding key_and_value_def Let_def assms(3) prod.case rest first ..
  show "callback config params param =
           (case decode config of None \<Rightarrow> Inl TypeError
            | Some config_decode \<Rightarrow>
            case config_decode (Some (takeWhile (\<lambda>c. c \<noteq> 0x3D) param)) None of
              Inl e \<Rightarrow> Inl e
            | Inr k \<Rightarrow>
            case toString k of Inl e \<Rightarrow> Inl e
            | Inr key \<Rightarrow>
            case config_decode (Some (tl (dropWhile (\<lambda>c. c \<noteq> 0x3D) param))) (Some key) of
              Inl e \<Rightarrow> Inl e
            | Inr value \<Rightarrow>
            case array_keys config of None \<Rightarrow> Inl TypeError
            | Some test \<Rightarrow>
                if test key then push_prop params key value
                else Inr (set_prop params key value))"
    unfolding callback_def kv by (simp split: option.splits sum.splits)
  show "snd (parseQuery w (Arg_string (js ''a=b=c&%3D=%26''))) =
          Inr \<lparr>own = [js ''a'' \<mapsto> Scalar (JString (js ''b=c'')),
                      js ''='' \<mapsto> Scalar (JString (js ''&''))],
               has_proto = True\<rparr>"
    using assms(1,2) by (simp add: parseQuery_string_defaults) (simp add: eval_defs)
qed

theorem only_first_equals_separates_witness:
  "objects (loaded []) parseQuery_obj = defaults \<and> parseQuery_obj < fresh (loaded []) \<and>
   shift (split (js ''a=b=c'') (Some (Sep_string (js ''='')))) =
     (Some (js ''a''), [js ''b'', js ''c'']) \<and>
   Some (js ''a'') = Some (takeWhile (\<lambda>c. c \<noteq> 0x3D) (js ''a=b=c'')) \<and>
   (if array_truthy [js ''b'', js ''c''] then Some (join (js ''='') [js ''b'', js ''c''])
    else None) = Some (tl (dropWhile (\<lambda>c. c \<noteq> 0x3D) (js ''a=b=c''))) \<and>
   key_and_value defaults (js ''a=b=c'') = Inr (js ''a'', JString (js ''b=c'')) \<and>
   callback defaults empty_params (js ''a=b=c'') =
     Inr \<lparr>own = [js ''a'' \<mapsto> Scalar (JString (js ''b=c''))], has_proto = True\<rparr> \<and>
   snd (parseQuery (loaded []) (Arg_string (js ''a=b=c&%3D=%26''))) =
     Inr \<lparr>own = [js ''a'' \<mapsto> Scalar (JString (js ''b=c'')),
                 js ''='' \<mapsto> Scalar (JString (js ''&''))],
          has_proto = True\<rparr>"
proof -
  have h1: "objects (loaded []) parseQuery_obj = defaults"
    by (simp add: loaded_def)
  have h2: "parseQuery_obj < fresh (loaded [])"
    by (simp add: loaded_def parseQuery_obj_def)
  have h3: "shift (split (js ''a=b=c'') (Some (Sep_string (js ''='')))) =
              (Some (js ''a''), [js ''b'', js ''c''])"
    by (simp add: eval_defs)
  note inst = only_first_equals_separates[OF h1 h2 h3, of defaults empty_params]
  have kv: "key_and_value defaults (js ''a=b=c'') = Inr (js ''a'', JString (js ''b=c''))"
    using inst
    by (simp add: js_def defaults_def default_decode_fn_def or_empty_def
          decodeURIComponent_def toString_def)
  have cb: "callback defaults empty_params (js ''a=b=c'') =
      Inr \<lparr>own = [js ''a'' \<mapsto> Scalar (JString (js ''b=c''))], has_proto = True\<rparr>"
    using inst
    by (simp add: js_def defaults_def default_decode_fn_def or_empty_def
          decodeURIComponent_def toString_def set_prop_def empty_params_def)
  show ?thesis
    using h1 h2 h3 inst kv cb by (intro conjI) simp_all
qed

lemma each_aborts:
  assumes "jQuery_each before f s = Inr s'" and "f s' x = Inl e"
  shows "jQuery_each (before @ x # after) f s = Inl e"
  using assms by (induction before arbitrary: s) (auto split: sum.splits)

text \<open>
  C2: if the decode function of the call, whichever it is, throws while decoding the raw
  key or the raw value of a token, and the tokens before it were processed, then the
  call to \<open>$.parseQuery\<close> throws that error and returns no object. (\<open>config\<close> is the
  configuration object of the call, found at the first address the call allocates.)
  In particular \<open>$.parseQuery("a=%")\<close> throws URIError.
\<close>

theorem decode_error_aborts_parse:
  assumes "config = objects (fst (parseQuery w options)) (fresh w)"
      and "query config = Some q"
      and "decode config = Some config_decode"
      and "split q (separator config) = before @ param # after"
      and "jQuery_each before (callback config) empty_params = Inr params"
      and "shift (split param (Some (Sep_string (js ''='')))) = (first, pair)"
      and "config_decode first None = Inl e \<or>
           (\<exists>k key. config_decode first None = Inr k \<and> toString k = Inr key \<and>
              config_decode (Some (join (js ''='') pair)) (Some key) = Inl e)"
  shows "snd (parseQuery w options) = Inl e"
proof -
  have "callback config params param = Inl e"
    using assms(3,6,7) by (auto simp: callback_def key_and_value_def array_truthy_def)
  with assms(5)
  have "jQuery_each (before @ param # after) (callback config) empty_params = Inl e"
    by (rule each_aborts)
  with parseQuery_loop[of w options] assms(1,2,4) show ?thesis
    by auto
qed

theorem decode_error_aborts_parse_witness:
  "snd (parseQuery (loaded []) (Arg_string (js ''a=%''))) = Inl URIError"
proof -
  let ?config = "defaults\<lparr>query := Some (js ''a=%'')\<rparr>"
  let ?d = "\<lambda>(input :: jsstring option) (context :: jsstring option). default_decode_fn input"
  have h1: "?config = objects (fst (parseQuery (loaded []) (Arg_string (js ''a=%''))))
              (fresh (loaded []))"
    by (simp add: parseQuery_def eval_defs)
  have h2: "query ?config = Some (js ''a=%'')"
    by simp
  have h3: "decode ?config = Some ?d"
    by (simp add: defaults_def)
  have h4: "split (js ''a=%'') (separator ?config) = [] @ js ''a=%'' # []"
    by (simp add: eval_defs)
  have h5: "jQuery_each [] (callback ?config) empty_params = Inr empty_params"
    by simp
  have h6: "shift (split (js ''a=%'') (Some (Sep_string (js ''='')))) =
      (Some (js ''a''), [js ''%''])"
    by (simp add: eval_defs)
  have h7: "?d (Some (js ''a'')) None = Inl URIError \<or>
            (\<exists>k key. ?d (Some (js ''a'')) None = Inr k \<and> toString k = Inr key \<and>
               ?d (Some (join (js ''='') [js ''%''])) (Some key) = Inl URIError)"
    by (simp add: eval_defs)
  show ?thesis
    by (rule decode_error_aborts_parse[OF h1 h2 h3 h4 h5 h6 h7])
qed

text \<open>
  C7: within one parse, every key of the object built holds an array when \<open>array_keys\<close>
  matches the key and a single value when it does not, after any number \<open>n\<close> of tokens
  and in the object returned; so no occurrence of a key turns one into the other.
  (\<open>config\<close> is the configuration object of the call; \<open>array_keys\<close> is a function of the
  key in this model.)
\<close>

theorem key_kind_is_fixed:
  assumes "config = objects (fst (parseQuery w options)) (fresh w)"
      and "query config = Some q"
      and "array_keys config = Some test"
  shows "(jQuery_each (take n (split q (separator config))) (callback config) empty_params
            = Inr params \<and> own params key = Some v
          \<longrightarrow> is_Sequence v = test key) \<and>
         (snd (parseQuery w options) = Inr result \<and> own result key = Some v'
          \<longrightarrow> is_Sequence v' = test key)"
proof (intro conjI impI)
  assume "jQuery_each (take n (split q (separator config))) (callback config) empty_params
            = Inr params \<and> own params key = Some v"
  then show "is_Sequence v = test key"
    using each_keeps_kinds[OF assms(3), of "take n (split q (separator config))" empty_params]
    by (auto simp: empty_params_def)
next
  assume a: "snd (parseQuery w options) = Inr result \<and> own result key = Some v'"
  have "snd (parseQuery w options) =
          jQuery_each (split q (separator config)) (callback config) empty_params"
    using parseQuery_loop[of w options] assms(1,2) by auto
  with a have "jQuery_each (split q (separator config)) (callback config) empty_params
                 = Inr result"
    by simp
  with a show "is_Sequence v' = test key"
    using each_keeps_kinds[OF assms(3), of "split q (separator config)" empty_params]
    by (auto simp: empty_params_def)
qed

theorem key_kind_is_fixed_witness:
  "jQuery_each (take 3 (split (js ''a[]=b&a[]=c&d=e&d=f'') (Some (Sep_string (js ''&'')))))
     (callback (defaults\<lparr>query := Some (js ''a[]=b&a[]=c&d=e&d=f''),
                          array_keys := Some ends_with_brackets\<rparr>)) empty_params =
     Inr \<lparr>own = [js ''a[]'' \<mapsto> Sequence [JString (js ''b''), JString (js ''c'')],
                 js ''d'' \<mapsto> Scalar (JString (js ''e''))],
          has_proto = True\<rparr> \<and>
   is_Sequence (Scalar (JString (js ''e''))) = ends_with_brackets (js ''d'') \<and>
   snd (parseQuery (with_options array_example) (Arg_object 1)) =
     Inr \<lparr>own = [js ''a[]'' \<mapsto> Sequence [JString (js ''b''), JString (js ''c'')],
                 js ''d'' \<mapsto> Scalar (JString (js ''f''))],
          has_proto = True\<rparr> \<and>
   is_Sequence (Sequence [JString (js ''b''), JString (js ''c'')]) =
     ends_with_brackets (js ''a[]'')"
proof -
  let ?q = "js ''a[]=b&a[]=c&d=e&d=f''"
  let ?config = "defaults\<lparr>query := Some ?q, array_keys := Some ends_with_brackets\<rparr>"
  let ?params = "\<lparr>own = [js ''a[]'' \<mapsto> Sequence [JString (js ''b''), JString (js ''c'')],
                         js ''d'' \<mapsto> Scalar (JString (js ''e''))],
                  has_proto = True\<rparr>"
  let ?result = "\<lparr>own = [js ''a[]'' \<mapsto> Sequence [JString (js ''b''), JString (js ''c'')],
                         js ''d'' \<mapsto> Scalar (JString (js ''f''))],
                  has_proto = True\<rparr>"
  have h1: "?config = objects (fst (parseQuery (with_options array_example) (Arg_object 1)))
              (fresh (with_options array_example))"
    by (simp add: parseQuery_def eval_defs)
  have h2: "query ?config = Some ?q"
    by simp
  have h3: "array_keys ?config = Some ends_with_brackets"
    by simp
  have sep: "separator ?config = Some (Sep_string (js ''&''))"
    by (simp add: defaults_def)
  have loop: "jQuery_each (take 3 (split ?q (separator ?config))) (callback ?config) empty_params
                = Inr ?params"
    by (simp add: eval_defs)
  have d: "own ?params (js ''d'') = Some (Scalar (JString (js ''e'')))"
    by (simp add: js_def)
  have res: "snd (parseQuery (with_options array_example) (Arg_object 1)) = Inr ?result"
    by (rule array_example_result)
  have a: "own ?result (js ''a[]'') = Some (Sequence [JString (js ''b''), JString (js ''c'')])"
    by (simp add: js_def)
  note fixed = key_kind_is_fixed[OF h1 h2 h3]
  from fixed[where n = 3 and params = ?params and key = "js ''d''"
             and v = "Scalar (JString (js ''e''))"] loop d
  have c1: "is_Sequence (Scalar (JString (js ''e''))) = ends_with_brackets (js ''d'')"
    by blast
  from fixed[where result = ?result and key = "js ''a[]''"
             and v' = "Sequence [JString (js ''b''), JString (js ''c'')]"] res a
  have c2: "is_Sequence (Sequence [JString (js ''b''), JString (js ''c'')]) =
              ends_with_brackets (js ''a[]'')"
    by blast
  from loop sep have loop': "jQuery_each (take 3 (split ?q (Some (Sep_string (js ''&'')))))
      (callback ?config) empty_params = Inr ?params"
    by simp
  show ?thesis
    using loop' c1 res c2 by (intro conjI)
qed

text \<open>
  C9: the result of \<open>$.parseQuery\<close> is determined by its argument and the configuration:
  two calls with the same argument, in any two heaps that agree on \<open>$.parseQuery\<close>, on the
  options object and on the page's query string, return equal results (or throw equal
  errors). (Decode functions and \<open>array_keys\<close> are functions of their arguments in this
  model.)
\<close>

theorem same_input_same_result:
  assumes "parseQuery_obj < fresh w" and "parseQuery_obj < fresh w'"
      and "objects w parseQuery_obj = objects w' parseQuery_obj"
      and "location_search w = location_search w'"
      and "case options of
             Arg_object a \<Rightarrow> a < fresh w \<and> a < fresh w' \<and> objects w a = objects w' a
           | _ \<Rightarrow> True"
  shows "snd (parseQuery w options) = snd (parseQuery w' options)"
  using assms
  by (cases options)
     (auto simp: parseQuery_def alloc_def Let_def parseQuery_obj_def split: option.splits)

theorem same_input_same_result_witness:
  "snd (parseQuery (with_options array_example) (Arg_object 1)) =
   snd (parseQuery (fst (parseQuery (with_options array_example) (Arg_object 1))) (Arg_object 1))"
proof -
  let ?w = "with_options array_example"
  let ?w' = "fst (parseQuery ?w (Arg_object 1))"
  have h1: "parseQuery_obj < fresh ?w"
    by (simp add: with_options_fresh parseQuery_obj_def)
  have one: "1 < fresh ?w"
    by (simp add: with_options_fresh)
  have h2: "parseQuery_obj < fresh ?w'"
    using h1 fresh_grows[of ?w "Arg_object 1"] by simp
  have h3: "objects ?w parseQuery_obj = objects ?w' parseQuery_obj"
    using objects_unchanged[OF h1] by simp
  have h4: "location_search ?w = location_search ?w'"
    by (simp add: location_unchanged)
  have h5: "case Arg_object 1 of
              Arg_object a \<Rightarrow> a < fresh ?w \<and> a < fresh ?w' \<and> objects ?w a = objects ?w' a
            | _ \<Rightarrow> True"
    using one fresh_grows[of ?w "Arg_object 1"] objects_unchanged[OF one, of "Arg_object 1"]
    by simp
  show ?thesis
    by (rule same_input_same_result[OF h1 h2 h3 h4 h5])
qed

text \<open>
  C10: a call to \<open>$.parseQuery\<close>, whether it returns or throws, leaves every object that
  existed before the call as it was, the options object and \<open>$.parseQuery\<close> with the
  defaults among them: the merged options are written to a newly allocated object.
\<close>

theorem parseQuery_frame:
  assumes "a < fresh w"
  shows "objects (fst (parseQuery w options)) a = objects w a \<and>
         location_search (fst (parseQuery w options)) = location_search w"
  using assms by (simp add: objects_unchanged location_unchanged)


theorem parseQuery_frame_witness:
  "1 < fresh (with_options (empty_opts\<lparr>query := Some (js ''a=%'')\<rparr>)) \<and>
   objects (fst (parseQuery (with_options (empty_opts\<lparr>query := Some (js ''a=%'')\<rparr>)) (Arg_object 1))) 1
     = objects (with_options (empty_opts\<lparr>query := Some (js ''a=%'')\<rparr>)) 1 \<and>
   location_search
     (fst (parseQuery (with_options (empty_opts\<lparr>query := Some (js ''a=%'')\<rparr>)) (Arg_object 1)))
     = location_search (with_options (empty_opts\<lparr>query := Some (js ''a=%'')\<rparr>))"
proof -
  have h: "1 < fresh (with_options (empty_opts\<lparr>query := Some (js ''a=%'')\<rparr>))"
    by (simp add: with_options_fresh)
  show ?thesis
    using h parseQuery_frame[OF h, of "Arg_object 1"] by (intro conjI) simp_all
qed


text \<open>
  C1 (the source does not do this): a token without \<open>=\<close> is to have its value decoded
  from \<open>null\<close>, so that a decode function can tell \<open>a\<close> from \<open>a=\<close>; the documentation in
  the source says the same (\<open>decode(null, decode("a", null))\<close> for the token \<open>a\<close>). The
  condition in \<open>pair ? pair.join('=') : null\<close> tests the array, which is truthy even when
  empty, so decode receives the empty string: with a decode function that answers
  \<open>"null"\<close> to \<open>null\<close>, the query \<open>a\<close> gives \<open>{"a": ""}\<close>, exactly as \<open>a=\<close> does.
\<close>

theorem valueless_token_decoded_from_empty_string:
  "snd (parseQuery (with_options (null_aware_example (js ''a''))) (Arg_object 1)) =
     Inr \<lparr>own = [js ''a'' \<mapsto> Scalar (JString [])], has_proto = True\<rparr> \<and>
   snd (parseQuery (with_options (null_aware_example (js ''a=''))) (Arg_object 1)) =
     Inr \<lparr>own = [js ''a'' \<mapsto> Scalar (JString [])], has_proto = True\<rparr> \<and>
   null_aware_decode None (Some (js ''a'')) = Inr (JString (js ''null''))"
  by (simp add: parseQuery_def eval_defs)

text \<open>
  C5 (the source does not do this for every key): a key that \<open>array_keys\<close> matches is to
  map to the array of its values in input order. \<open>params[key] || []\<close> also finds what
  \<open>params\<close> inherits from \<open>Object.prototype\<close>, so for such a key no array is made and
  \<open>push\<close> is called on the inherited function: with \<open>array_keys\<close> matching
  \<open>constructor\<close>, the query \<open>constructor=b\<close> throws TypeError instead of returning
  \<open>{"constructor": ["b"]}\<close>. (For the keys on which the call returns,
  \<open>array_key_collects_in_order\<close> above gives the array, and \<open>array_example_result\<close> is
  the example of the documentation.)
\<close>

theorem inherited_array_key_throws:
  "snd (parseQuery (with_options constructor_example) (Arg_object 1)) = Inl TypeError"
  by (simp add: parseQuery_def eval_defs)

text \<open>
  C6 (the source does not do this for every key): a key that \<open>array_keys\<close> does not match
  is to map to the value of its last occurrence. Assigning a string to
  \<open>params["__proto__"]\<close> runs the setter inherited from \<open>Object.prototype\<close>, which ignores
  it: under the default configuration the query \<open>__proto__=x\<close> returns the empty object
  \<open>{}\<close> instead of \<open>{"__proto__": "x"}\<close>. (For every other key, \<open>scalar_key_last_wins\<close>
  above gives the last value, and \<open>last_wins_example\<close> is the example of the
  documentation.)
\<close>

theorem proto_key_is_not_stored:
  "snd (parseQuery (loaded []) (Arg_string (js ''__proto__=x''))) =
     Inr \<lparr>own = Map.empty, has_proto = True\<rparr>"
  by (simp add: parseQuery_def eval_defs)


end
